theory Spec2Isabelle
  imports Complex_Main
begin

section \<open>The servo motor plugin of rotors\_gazebo\_plugins\<close>

text \<open>
  A shallow embedding of \<^verbatim>\<open>gazebo_servo_motor_plugin.cpp\<close>. The members of the class
  \<^verbatim>\<open>GazeboServoMotor\<close> are the fields of the record \<open>servo\<close> (the trailing underscore of
  a member name is dropped); every member function takes the object and returns the
  updated object together with the calls it makes on the joint and on the publisher.

  A C++ \<^verbatim>\<open>double\<close> is modelled as a real number: the model has no rounding, no
  infinities and no NaN. A \<^verbatim>\<open>math::Angle\<close> is the real number of its radians, and
  the difference of two angles is the difference of their radians.
\<close>

subsection \<open>The object\<close>

record servo =
  namespace :: string
  joint_name :: string
  motor_model :: string
  command_sub_topic :: string
  joint_state_pub_topic :: string
  command_position_sub_topic :: string
  command_torque_sub_topic :: string
  max_torque :: real
  no_load_speed :: real
  max_angle :: real
  min_angle :: real
  max_angle_error_integral :: real
  kp :: real
  kd :: real
  ki :: real
  angle_reference :: real
  torque_reference :: real
  angle_error_integral :: real
  sampling_time :: real
  received_first_command :: bool
  position_control :: bool
  prev_sim_time :: "real option"

text \<open>
  \<open>prev_sim_time\<close> is the function-local \<^verbatim>\<open>static double prev_sim_time\<close> of
  \<^verbatim>\<open>OnUpdate\<close>: \<open>None\<close> until the first call of \<^verbatim>\<open>OnUpdate\<close> runs its initialiser,
  \<open>Some t\<close> afterwards. The model is of one plugin instance, so the static is kept with
  the object.
\<close>

subsection \<open>What one update reads from the simulator\<close>

record update_info =
  simTime :: real
  now_sec :: int
  now_nsec :: int
  parent_scoped_name :: string
  joint_angle :: real
  joint_velocity :: real
  joint_force :: real

text \<open>
  \<open>simTime\<close> is \<^verbatim>\<open>_info.simTime.Double()\<close>; \<open>now_sec\<close> and \<open>now_nsec\<close> are the two
  parts of \<^verbatim>\<open>model_->GetWorld()->GetSimTime()\<close>; \<open>parent_scoped_name\<close> is
  \<^verbatim>\<open>joint_->GetParent()->GetScopedName()\<close>; \<open>joint_angle\<close> is
  \<^verbatim>\<open>joint_->GetAngle(0).Radian()\<close>, \<open>joint_velocity\<close> is \<^verbatim>\<open>joint_->GetVelocity(0)\<close>
  and \<open>joint_force\<close> is what \<^verbatim>\<open>joint_->GetForce(0)\<close> returns when \<^verbatim>\<open>Publish\<close> reads it.
\<close>

record joint_state =
  header_frame_id :: string
  header_stamp_sec :: int
  header_stamp_nsec :: int
  name :: "string list"
  position :: "real list"
  velocity :: "real list"
  effort :: "real list"

text \<open>
  The calls an update makes on its collaborators, in the order it makes them:
  \<open>SetForce t\<close> is \<^verbatim>\<open>joint_->SetForce(0, t)\<close> and \<open>Published m\<close> is
  \<^verbatim>\<open>joint_state_pub_.publish(m)\<close>.
\<close>

datatype effect = SetForce real | Published joint_state

subsection \<open>The limit helper\<close>

text \<open>
  Modelled from the spec: \<^verbatim>\<open>limit\<close> is called by the plugin and declared in a header
  that is not among the sources. The specification gives its contract as
  \<^verbatim>\<open>limit(value, upper, lower) -> clamped_value\<close>, a pure function clamping a value to
  the interval from \<open>lower\<close> to \<open>upper\<close>. For \<open>upper < lower\<close> the specification leaves
  the result open, and the definition is unfolded below only where \<open>lower \<le> upper\<close>.
\<close>

definition limit :: "real \<Rightarrow> real \<Rightarrow> real \<Rightarrow> real" where
  "limit val upper lower =
     (if val > upper then upper else if val < lower then lower else val)"

subsection \<open>Publishing and the two control laws\<close>

definition Publish :: "servo \<Rightarrow> update_info \<Rightarrow> joint_state" where
  "Publish s e =
     \<lparr> header_frame_id = parent_scoped_name e,
       header_stamp_sec = now_sec e,
       header_stamp_nsec = now_nsec e,
       name = [joint_name s],
       position = [joint_angle e],
       velocity = [joint_velocity e],
       effort = [joint_force e] \<rparr>"

definition UpdatePosition :: "servo \<Rightarrow> update_info \<Rightarrow> servo \<times> effect list" where
  "UpdatePosition s e =
     (let angle_error = angle_reference s - joint_angle e;
          omega = joint_velocity e;
          s1 = s\<lparr>angle_error_integral := angle_error_integral s + angle_error * sampling_time s\<rparr>;
          s2 = s1\<lparr>angle_error_integral :=
                    limit (angle_error_integral s1) (max_angle_error_integral s1)
                      (- max_angle_error_integral s1)\<rparr>;
          torque = kp s2 * angle_error - kd s2 * omega + ki s2 * angle_error_integral s2;
          torque' = limit torque (max_torque s2) (- max_torque s2)
      in (s2, [SetForce torque']))"

definition UpdateTorque :: "servo \<Rightarrow> update_info \<Rightarrow> servo \<times> effect list" where
  "UpdateTorque s e =
     (let torque = limit (torque_reference s) (max_torque s) (- max_torque s)
      in (s, [SetForce torque]))"

subsection \<open>The update event\<close>

definition OnUpdate :: "servo \<Rightarrow> update_info \<Rightarrow> servo \<times> effect list" where
  "OnUpdate s e =
     (let prev = (case prev_sim_time s of None \<Rightarrow> simTime e | Some p \<Rightarrow> p);
          s1 = s\<lparr>sampling_time := simTime e - prev\<rparr>;
          s2 = s1\<lparr>prev_sim_time := Some (simTime e)\<rparr>;
          s3 = s2\<lparr>sampling_time := limit (sampling_time s2) 1.0 0.001\<rparr>
      in if received_first_command s3 = False then (s3, [Published (Publish s3 e)])
         else
           (let r = (if position_control s3 then UpdatePosition s3 e else UpdateTorque s3 e)
            in (fst r, snd r @ [Published (Publish (fst r) e)])))"

text \<open>
  The elapsed time \<^verbatim>\<open>OnUpdate\<close> first assigns to \<^verbatim>\<open>sampling_time_\<close>, before it is
  limited: the update's time less the static's value, which on the first call is the
  update's own time.
\<close>

definition raw_dt :: "servo \<Rightarrow> update_info \<Rightarrow> real" where
  "raw_dt s e = simTime e - (case prev_sim_time s of None \<Rightarrow> simTime e | Some p \<Rightarrow> p)"

subsection \<open>The command callbacks\<close>

text \<open>
  The argument is the field the callback reads from its message: \<^verbatim>\<open>msg->motor_angle\<close>
  and \<^verbatim>\<open>msg->torque\<close>.
\<close>

definition PositionCommandCallback :: "servo \<Rightarrow> real \<Rightarrow> servo" where
  "PositionCommandCallback s motor_angle =
     s\<lparr>angle_reference := motor_angle,
       received_first_command := True,
       position_control := True\<rparr>"

definition TorqueCommandCallback :: "servo \<Rightarrow> real \<Rightarrow> servo" where
  "TorqueCommandCallback s torque =
     s\<lparr>torque_reference := torque,
       received_first_command := True,
       position_control := False\<rparr>"

subsection \<open>Runs of the plugin\<close>

text \<open>
  After \<^verbatim>\<open>Load\<close> the plugin is driven by three callbacks only. A run is the list of
  the callbacks' invocations in the order they happen; its result is the final object
  and the calls made on the joint and the publisher, in order.
\<close>

datatype event = Tick update_info | PositionCommand real | TorqueCommand real

fun step :: "servo \<Rightarrow> event \<Rightarrow> servo \<times> effect list" where
  "step s (Tick e) = OnUpdate s e"
| "step s (PositionCommand a) = (PositionCommandCallback s a, [])"
| "step s (TorqueCommand t) = (TorqueCommandCallback s t, [])"

fun run :: "servo \<Rightarrow> event list \<Rightarrow> servo \<times> effect list" where
  "run s [] = (s, [])"
| "run s (ev # evs) =
     (let r = step s ev; r' = run (fst r) evs in (fst r', snd r @ snd r'))"

text \<open>
  The specification names three modes; the plugin keeps two flags. \<open>mode_of\<close> reads the
  specification's mode off the flags.
\<close>

datatype mode = Uninitialized | PositionControl | TorqueControl

definition mode_of :: "servo \<Rightarrow> mode" where
  "mode_of s =
     (if received_first_command s = False then Uninitialized
      else if position_control s then PositionControl else TorqueControl)"

subsection \<open>Loading the plugin\<close>

text \<open>
  The plugin's SDF element, by the child elements \<^verbatim>\<open>Load\<close> asks for: \<open>None\<close> when
  \<^verbatim>\<open>HasElement\<close> is false, \<open>Some v\<close> with the value \<^verbatim>\<open>Get\<close> reads otherwise.
\<close>

record sdf =
  robotNamespace :: "string option"
  jointName :: "string option"
  motorModel :: "string option"
  maxTorque :: "real option"
  noLoadSpeed :: "real option"
  maxAngleErrorIntegral :: "real option"
  commandSubTopic :: "string option"
  jointStatePubTopic :: "string option"
  Kp :: "real option"
  Kd :: "real option"
  Ki :: "real option"
  maxAngle :: "real option"
  minAngle :: "real option"

text \<open>
  What \<^verbatim>\<open>Load\<close> does to its surroundings, in order. \<open>gzerr x\<close> is the line written to
  the error stream that asks for the element \<open>x\<close> (\<^verbatim>\<open>Please specify a x\<close>);
  \<open>NewNodeHandle\<close>, \<open>subscribe\<close> and \<open>advertise\<close> are the ROS calls,
  \<open>SetLowerLimit\<close> and \<open>SetUpperLimit\<close> the calls on the joint, and
  \<open>ConnectWorldUpdateBegin\<close> registers \<^verbatim>\<open>OnUpdate\<close> with the world update event.
  \<open>JointNotFound\<close> is the exception of \<^verbatim>\<open>gzthrow\<close>.
\<close>

datatype load_effect =
    gzerr string
  | NewNodeHandle string
  | SetLowerLimit real
  | SetUpperLimit real
  | ConnectWorldUpdateBegin
  | subscribe string
  | advertise string

datatype load_error = JointNotFound string

text \<open>
  \<^verbatim>\<open>getSdfParam\<close> is declared in a header that is not among the sources. Every call
  in \<^verbatim>\<open>Load\<close> passes the member itself as the default, so the member keeps its value
  when the element is absent and takes the element's value when it is present.
\<close>

definition getSdfParam :: "'a option \<Rightarrow> 'a \<Rightarrow> 'a" where
  "getSdfParam el default_value = (case el of Some v \<Rightarrow> v | None \<Rightarrow> default_value)"

text \<open>
  \<open>Load s joints cfg\<close>: \<open>s\<close> is the object as its constructor left it (the constructor
  is in the header, so the object is a parameter), \<open>joints\<close> are the names of the
  model's joints (\<^verbatim>\<open>GetJoint\<close> returns \<^verbatim>\<open>NULL\<close> for any other name) and \<open>cfg\<close> is the
  SDF element.
\<close>

definition Load :: "servo \<Rightarrow> string list \<Rightarrow> sdf \<Rightarrow> load_effect list \<times> (load_error + servo)" where
  "Load s joints cfg =
     (let s0 = s\<lparr>namespace := []\<rparr>;
          (s1, f1) = (case robotNamespace cfg of
                        Some v \<Rightarrow> (s0\<lparr>namespace := v\<rparr>, [])
                      | None \<Rightarrow> (s0, [gzerr ''robotNamespace'']));
          f2 = f1 @ [NewNodeHandle (namespace s1)];
          (s3, f3) = (case jointName cfg of
                        Some v \<Rightarrow> (s1\<lparr>joint_name := v\<rparr>, f2)
                      | None \<Rightarrow> (s1, f2 @ [gzerr ''jointName'']))
      in if joint_name s3 \<notin> set joints then (f3, Inl (JointNotFound (joint_name s3)))
         else
           (let (s4, f4) = (case motorModel cfg of
                              Some v \<Rightarrow> (s3\<lparr>motor_model := v\<rparr>, f3)
                            | None \<Rightarrow> (s3, f3 @ [gzerr ''motorModel'']));
                (s5, f5) = (case maxTorque cfg of
                              Some v \<Rightarrow> (s4\<lparr>max_torque := v\<rparr>, f4)
                            | None \<Rightarrow> (s4, f4 @ [gzerr ''maxTorque'']));
                (s6, f6) = (case noLoadSpeed cfg of
                              Some v \<Rightarrow> (s5\<lparr>no_load_speed := v\<rparr>, f5)
                            | None \<Rightarrow> (s5, f5 @ [gzerr ''noLoadSpeed'']));
                s7 = s6\<lparr>max_angle_error_integral :=
                          getSdfParam (maxAngleErrorIntegral cfg) (max_angle_error_integral s6),
                        command_sub_topic :=
                          getSdfParam (commandSubTopic cfg) (command_sub_topic s6),
                        joint_state_pub_topic :=
                          getSdfParam (jointStatePubTopic cfg) (joint_state_pub_topic s6),
                        kp := getSdfParam (Kp cfg) (kp s6),
                        kd := getSdfParam (Kd cfg) (kd s6),
                        ki := getSdfParam (Ki cfg) (ki s6),
                        max_angle := getSdfParam (maxAngle cfg) (max_angle s6),
                        min_angle := getSdfParam (minAngle cfg) (min_angle s6)\<rparr>;
                f7 = f6 @ [SetLowerLimit (min_angle s7), SetUpperLimit (max_angle s7),
                           ConnectWorldUpdateBegin];
                s8 = s7\<lparr>command_position_sub_topic := command_sub_topic s7 @ ''_position'',
                        command_torque_sub_topic := command_sub_topic s7 @ ''_torque''\<rparr>;
                f8 = f7 @ [subscribe (command_position_sub_topic s8),
                           subscribe (command_torque_sub_topic s8),
                           advertise (joint_state_pub_topic s8)]
            in (f8, Inr s8)))"

subsection \<open>Sample inputs\<close>

text \<open>
  An object with the gains and torque limit of the specification's example scenario,
  before its first update and its first command.
\<close>

definition example_servo :: servo where
  "example_servo =
     \<lparr> namespace = ''arm'', joint_name = ''servo_joint'', motor_model = ''servo'',
       command_sub_topic = ''command'', joint_state_pub_topic = ''joint_state'',
       command_position_sub_topic = ''command_position'',
       command_torque_sub_topic = ''command_torque'',
       max_torque = 10, no_load_speed = 5, max_angle = 2, min_angle = - 2,
       max_angle_error_integral = 1, kp = 2, kd = 1 / 2, ki = 0,
       angle_reference = 0, torque_reference = 0, angle_error_integral = 0,
       sampling_time = 0, received_first_command = False, position_control = False,
       prev_sim_time = None \<rparr>"

text \<open>
  The simulator at \<open>sec\<close> seconds and \<open>nsec\<close> nanoseconds, the joint at angle \<open>a\<close> with
  velocity \<open>w\<close> and applied force \<open>f\<close>.
\<close>

definition example_info :: "int \<Rightarrow> int \<Rightarrow> real \<Rightarrow> real \<Rightarrow> real \<Rightarrow> update_info" where
  "example_info sec nsec a w f =
     \<lparr> simTime = real_of_int sec + real_of_int nsec / 1000000000,
       now_sec = sec, now_nsec = nsec, parent_scoped_name = ''arm::base_link'',
       joint_angle = a, joint_velocity = w, joint_force = f \<rparr>"

text \<open>
  An SDF element that names the joint and nothing else but a lower angle limit above the
  upper one.
\<close>

definition example_sdf :: sdf where
  "example_sdf =
     \<lparr> robotNamespace = Some ''arm'', jointName = Some ''servo_joint'',
       motorModel = None, maxTorque = None, noLoadSpeed = None,
       maxAngleErrorIntegral = None, commandSubTopic = None, jointStatePubTopic = None,
       Kp = None, Kd = None, Ki = None, maxAngle = Some 0, minAngle = Some 1 \<rparr>"

section \<open>Properties\<close>

subsection \<open>Facts about limit\<close>

lemma limit_bounds:
  "lower \<le> upper \<Longrightarrow> lower \<le> limit v upper lower \<and> limit v upper lower \<le> upper"
  by (simp add: limit_def)

lemma limit_id: "lower \<le> v \<Longrightarrow> v \<le> upper \<Longrightarrow> limit v upper lower = v"
  by (simp add: limit_def)

subsection \<open>The three shapes of an update\<close>

lemma OnUpdate_uninitialized:
  assumes "received_first_command s = False"
  shows "OnUpdate s e =
    (s\<lparr>sampling_time := limit (raw_dt s e) 1 0.001, prev_sim_time := Some (simTime e)\<rparr>,
     [Published (Publish s e)])"
  using assms by (simp add: OnUpdate_def Let_def Publish_def raw_dt_def)

lemma OnUpdate_torque:
  assumes "received_first_command s" and "\<not> position_control s"
  shows "OnUpdate s e =
    (s\<lparr>sampling_time := limit (raw_dt s e) 1 0.001, prev_sim_time := Some (simTime e)\<rparr>,
     [SetForce (limit (torque_reference s) (max_torque s) (- max_torque s)),
      Published (Publish s e)])"
  using assms by (simp add: OnUpdate_def UpdateTorque_def Let_def Publish_def raw_dt_def)

lemma OnUpdate_position:
  assumes "received_first_command s" and "position_control s"
  shows "OnUpdate s e =
    (s\<lparr>sampling_time := limit (raw_dt s e) 1 0.001, prev_sim_time := Some (simTime e),
       angle_error_integral :=
         limit (angle_error_integral s
                  + (angle_reference s - joint_angle e) * limit (raw_dt s e) 1 0.001)
           (max_angle_error_integral s) (- max_angle_error_integral s)\<rparr>,
     [SetForce (limit (kp s * (angle_reference s - joint_angle e) - kd s * joint_velocity e
                  + ki s * limit (angle_error_integral s
                      + (angle_reference s - joint_angle e) * limit (raw_dt s e) 1 0.001)
                      (max_angle_error_integral s) (- max_angle_error_integral s))
         (max_torque s) (- max_torque s)),
      Published (Publish s e)])"
  using assms by (simp add: OnUpdate_def UpdatePosition_def Let_def Publish_def raw_dt_def)


subsection \<open>What an update leaves alone\<close>

lemma OnUpdate_cases:
  obtains (uninitialized) "received_first_command s = False"
  | (position) "received_first_command s" "position_control s"
  | (torque) "received_first_command s" "\<not> position_control s"
  by blast

lemma OnUpdate_max_torque: "max_torque (fst (OnUpdate s e)) = max_torque s"
  by (cases rule: OnUpdate_cases [of s])
     (simp_all add: OnUpdate_uninitialized OnUpdate_position OnUpdate_torque)

lemma OnUpdate_max_integral:
  "max_angle_error_integral (fst (OnUpdate s e)) = max_angle_error_integral s"
  by (cases rule: OnUpdate_cases [of s])
     (simp_all add: OnUpdate_uninitialized OnUpdate_position OnUpdate_torque)

lemma OnUpdate_flags:
  "received_first_command (fst (OnUpdate s e)) = received_first_command s
   \<and> position_control (fst (OnUpdate s e)) = position_control s"
  by (cases rule: OnUpdate_cases [of s])
     (simp_all add: OnUpdate_uninitialized OnUpdate_position OnUpdate_torque)

lemma OnUpdate_timing:
  "sampling_time (fst (OnUpdate s e)) = limit (raw_dt s e) 1 0.001
   \<and> prev_sim_time (fst (OnUpdate s e)) = Some (simTime e)"
  by (cases rule: OnUpdate_cases [of s])
     (simp_all add: OnUpdate_uninitialized OnUpdate_position OnUpdate_torque)

lemma OnUpdate_SetForce:
  assumes "SetForce t \<in> set (snd (OnUpdate s e))"
  shows "\<exists>v. t = limit v (max_torque s) (- max_torque s)"
  using assms
  by (cases rule: OnUpdate_cases [of s])
     (auto simp add: OnUpdate_uninitialized OnUpdate_position OnUpdate_torque)

lemma OnUpdate_integral_bounded:
  assumes "0 \<le> max_angle_error_integral s"
    and "- max_angle_error_integral s \<le> angle_error_integral s"
    and "angle_error_integral s \<le> max_angle_error_integral s"
  shows "- max_angle_error_integral s \<le> angle_error_integral (fst (OnUpdate s e))
         \<and> angle_error_integral (fst (OnUpdate s e)) \<le> max_angle_error_integral s"
proof (cases rule: OnUpdate_cases [of s])
  case uninitialized
  with assms show ?thesis by (simp add: OnUpdate_uninitialized)
next
  case position
  from assms(1) have "- max_angle_error_integral s \<le> max_angle_error_integral s" by simp
  with position show ?thesis by (simp add: OnUpdate_position limit_bounds)
next
  case torque
  with assms show ?thesis by (simp add: OnUpdate_torque)
qed

subsection \<open>Steps and runs\<close>

lemma step_max_torque: "max_torque (fst (step s ev)) = max_torque s"
  by (cases ev)
     (simp_all add: OnUpdate_max_torque PositionCommandCallback_def TorqueCommandCallback_def)

lemma step_max_integral:
  "max_angle_error_integral (fst (step s ev)) = max_angle_error_integral s"
  by (cases ev)
     (simp_all add: OnUpdate_max_integral PositionCommandCallback_def TorqueCommandCallback_def)

lemma step_SetForce:
  assumes "SetForce t \<in> set (snd (step s ev))"
  shows "\<exists>v. t = limit v (max_torque s) (- max_torque s)"
  using assms by (cases ev) (auto dest: OnUpdate_SetForce)

lemma step_integral_bounded:
  assumes "0 \<le> max_angle_error_integral s"
    and "- max_angle_error_integral s \<le> angle_error_integral s"
    and "angle_error_integral s \<le> max_angle_error_integral s"
  shows "- max_angle_error_integral s \<le> angle_error_integral (fst (step s ev))
         \<and> angle_error_integral (fst (step s ev)) \<le> max_angle_error_integral s"
proof (cases ev)
  case (Tick e)
  with assms show ?thesis by (simp add: OnUpdate_integral_bounded)
next
  case (PositionCommand a)
  with assms show ?thesis by (simp add: PositionCommandCallback_def)
next
  case (TorqueCommand t)
  with assms show ?thesis by (simp add: TorqueCommandCallback_def)
qed

lemma step_received:
  "received_first_command s \<Longrightarrow> received_first_command (fst (step s ev))"
  by (cases ev)
     (simp_all add: OnUpdate_flags PositionCommandCallback_def TorqueCommandCallback_def)

lemma run_append_fst: "fst (run s (evs @ evs')) = fst (run (fst (run s evs)) evs')"
  by (induction evs arbitrary: s) (simp_all add: Let_def)

lemma run_received:
  "received_first_command s \<Longrightarrow> received_first_command (fst (run s evs))"
  by (induction evs arbitrary: s) (simp_all add: Let_def step_received)

lemma run_SetForce:
  assumes "SetForce t \<in> set (snd (run s evs))"
  shows "\<exists>v. t = limit v (max_torque s) (- max_torque s)"
  using assms
proof (induction evs arbitrary: s)
  case Nil
  then show ?case by simp
next
  case (Cons ev evs)
  from Cons.prems consider
    (now) "SetForce t \<in> set (snd (step s ev))"
    | (later) "SetForce t \<in> set (snd (run (fst (step s ev)) evs))"
    by (auto simp add: Let_def)
  then show ?case
  proof cases
    case now
    then show ?thesis by (rule step_SetForce)
  next
    case later
    from Cons.IH [OF later] show ?thesis by (simp add: step_max_torque)
  qed
qed

lemma run_integral_bounded:
  assumes "0 \<le> max_angle_error_integral s"
    and "- max_angle_error_integral s \<le> angle_error_integral s"
    and "angle_error_integral s \<le> max_angle_error_integral s"
  shows "- max_angle_error_integral s \<le> angle_error_integral (fst (run s evs))
         \<and> angle_error_integral (fst (run s evs)) \<le> max_angle_error_integral s"
  using assms
proof (induction evs arbitrary: s)
  case Nil
  then show ?case by simp
next
  case (Cons ev evs)
  let ?s' = "fst (step s ev)"
  have m: "max_angle_error_integral ?s' = max_angle_error_integral s"
    by (rule step_max_integral)
  from step_integral_bounded [OF Cons.prems, of ev]
  have b: "- max_angle_error_integral ?s' \<le> angle_error_integral ?s'"
    "angle_error_integral ?s' \<le> max_angle_error_integral ?s'"
    by (simp_all add: m)
  from Cons.prems(1) have z: "0 \<le> max_angle_error_integral ?s'" by (simp add: m)
  from Cons.IH [OF z b] show ?case by (simp add: Let_def m)
qed

text \<open>The equations that evaluate a run on a sample input.\<close>

lemmas run_defs = OnUpdate_def UpdatePosition_def UpdateTorque_def Publish_def limit_def Let_def
  PositionCommandCallback_def TorqueCommandCallback_def example_servo_def example_info_def

subsection \<open>Saturation of the output torque\<close>

text \<open>
  C1. Whatever the object's other fields and whatever the commands and updates of a run,
  when \<open>max_torque\<close> is not negative every torque the run passes to \<^verbatim>\<open>SetForce\<close>, by
  the position law or by the torque law, lies between \<open>- max_torque\<close> and \<open>max_torque\<close>.
\<close>

theorem torque_within_max_torque:
  assumes "0 \<le> max_torque s" and "SetForce t \<in> set (snd (run s evs))"
  shows "- max_torque s \<le> t \<and> t \<le> max_torque s"
proof -
  from assms(2) obtain v where "t = limit v (max_torque s) (- max_torque s)"
    by (blast dest: run_SetForce)
  moreover from assms(1) have "- max_torque s \<le> max_torque s" by simp
  ultimately show ?thesis by (simp add: limit_bounds)
qed

theorem torque_within_max_torque_witness:
  "0 \<le> max_torque example_servo
   \<and> SetForce 10 \<in> set (snd (run example_servo
        [PositionCommand 1000, Tick (example_info 0 0 0 0 0),
         TorqueCommand (- 50), Tick (example_info 0 10000000 0 0 10)]))
   \<and> SetForce (- 10) \<in> set (snd (run example_servo
        [PositionCommand 1000, Tick (example_info 0 0 0 0 0),
         TorqueCommand (- 50), Tick (example_info 0 10000000 0 0 10)]))
   \<and> - max_torque example_servo \<le> 10 \<and> 10 \<le> max_torque example_servo"
proof -
  let ?evs = "[PositionCommand 1000, Tick (example_info 0 0 0 0 0),
         TorqueCommand (- 50), Tick (example_info 0 10000000 0 0 10)]"
  have p: "0 \<le> max_torque example_servo" by (simp add: example_servo_def)
  have q: "SetForce 10 \<in> set (snd (run example_servo ?evs))"
    by (simp add: run_defs)
  have q': "SetForce (- 10) \<in> set (snd (run example_servo ?evs))"
    by (simp add: run_defs)
  from torque_within_max_torque [OF p q] p q q' show ?thesis by simp
qed

subsection \<open>Saturation of the integral\<close>

text \<open>
  C2. When \<open>max_angle_error_integral\<close> is not negative, an integral that starts within
  \<open>- max_angle_error_integral\<close> and \<open>max_angle_error_integral\<close> is within them after every
  run of commands and updates; and every update in position mode stores the limited sum
  of the old integral and the error times the update's sampling time, which is within
  the bounds whatever the integral was before.
\<close>

theorem integral_within_bound:
  assumes "0 \<le> max_angle_error_integral s"
  shows "(- max_angle_error_integral s \<le> angle_error_integral s
          \<and> angle_error_integral s \<le> max_angle_error_integral s
          \<longrightarrow> - max_angle_error_integral s \<le> angle_error_integral (fst (run s evs))
              \<and> angle_error_integral (fst (run s evs)) \<le> max_angle_error_integral s)
         \<and> (received_first_command s \<and> position_control s
          \<longrightarrow> angle_error_integral (fst (OnUpdate s e)) =
                limit (angle_error_integral s
                         + (angle_reference s - joint_angle e) * sampling_time (fst (OnUpdate s e)))
                  (max_angle_error_integral s) (- max_angle_error_integral s)
              \<and> - max_angle_error_integral s \<le> angle_error_integral (fst (OnUpdate s e))
              \<and> angle_error_integral (fst (OnUpdate s e)) \<le> max_angle_error_integral s)"
proof (intro conjI impI)
  assume "- max_angle_error_integral s \<le> angle_error_integral s
          \<and> angle_error_integral s \<le> max_angle_error_integral s"
  with assms have b: "- max_angle_error_integral s \<le> angle_error_integral (fst (run s evs))
     \<and> angle_error_integral (fst (run s evs)) \<le> max_angle_error_integral s"
    by (simp add: run_integral_bounded)
  from b show "- max_angle_error_integral s \<le> angle_error_integral (fst (run s evs))" ..
  from b show "angle_error_integral (fst (run s evs)) \<le> max_angle_error_integral s" ..
next
  assume pos: "received_first_command s \<and> position_control s"
  from assms have le: "- max_angle_error_integral s \<le> max_angle_error_integral s" by simp
  from pos show "angle_error_integral (fst (OnUpdate s e)) =
      limit (angle_error_integral s
               + (angle_reference s - joint_angle e) * sampling_time (fst (OnUpdate s e)))
        (max_angle_error_integral s) (- max_angle_error_integral s)"
    by (simp add: OnUpdate_position)
  from pos le show "- max_angle_error_integral s \<le> angle_error_integral (fst (OnUpdate s e))"
    by (simp add: OnUpdate_position limit_bounds)
  from pos le show "angle_error_integral (fst (OnUpdate s e)) \<le> max_angle_error_integral s"
    by (simp add: OnUpdate_position limit_bounds)
qed

theorem integral_within_bound_witness:
  "0 \<le> max_angle_error_integral example_servo
   \<and> - max_angle_error_integral example_servo \<le> angle_error_integral example_servo
   \<and> angle_error_integral example_servo \<le> max_angle_error_integral example_servo
   \<and> angle_error_integral (fst (run example_servo
         [PositionCommand 1000, Tick (example_info 0 0 0 0 0), Tick (example_info 1 0 0 0 0)])) = 1
   \<and> received_first_command (PositionCommandCallback example_servo 1000)
   \<and> position_control (PositionCommandCallback example_servo 1000)
   \<and> angle_error_integral
        (fst (OnUpdate (PositionCommandCallback example_servo 1000) (example_info 0 0 0 0 0))) = 1"
proof -
  let ?evs = "[PositionCommand 1000, Tick (example_info 0 0 0 0 0), Tick (example_info 1 0 0 0 0)]"
  let ?s = "PositionCommandCallback example_servo 1000"
  have p: "0 \<le> max_angle_error_integral example_servo" by (simp add: example_servo_def)
  have q: "- max_angle_error_integral example_servo \<le> angle_error_integral example_servo
     \<and> angle_error_integral example_servo \<le> max_angle_error_integral example_servo"
    by (simp add: example_servo_def)
  have p': "0 \<le> max_angle_error_integral ?s"
    by (simp add: example_servo_def PositionCommandCallback_def)
  have r: "received_first_command ?s \<and> position_control ?s"
    by (simp add: PositionCommandCallback_def)
  have v: "angle_error_integral (fst (run example_servo ?evs)) = 1"
    by (simp add: run_defs)
  have w: "angle_error_integral (fst (OnUpdate ?s (example_info 0 0 0 0 0))) = 1"
    by (simp add: run_defs)
  from integral_within_bound [OF p, of ?evs] integral_within_bound [OF p', of "[]" "example_info 0 0 0 0 0"]
    p q r v w
  show ?thesis by simp
qed

subsection \<open>The position law\<close>

text \<open>
  C3. An update in position mode passes to \<^verbatim>\<open>SetForce\<close> the limited value of
  \<open>kp * angle_error - kd * omega + ki * angle_error_integral\<close>, where the error is the
  reference less the joint's angle, \<open>omega\<close> the joint's velocity and the integral the one
  stored by this update, after its accumulation and limiting. With \<open>kp = 2\<close>, \<open>kd = 1/2\<close>,
  \<open>ki = 0\<close> and \<open>max_torque = 10\<close>, the update after a position command of \<open>1/2\<close> with the
  joint at angle \<open>0\<close> and velocity \<open>0\<close> passes the torque \<open>1\<close>, at any sampling time.
\<close>

theorem position_tick_torque:
  "(received_first_command s \<and> position_control s \<longrightarrow>
      snd (OnUpdate s e) =
        [SetForce (limit (kp s * (angle_reference s - joint_angle e) - kd s * joint_velocity e
                            + ki s * angle_error_integral (fst (OnUpdate s e)))
                     (max_torque s) (- max_torque s)),
         Published (Publish s e)]
      \<and> angle_error_integral (fst (OnUpdate s e)) =
          limit (angle_error_integral s
                   + (angle_reference s - joint_angle e) * sampling_time (fst (OnUpdate s e)))
            (max_angle_error_integral s) (- max_angle_error_integral s))
   \<and> (kp s = 2 \<and> kd s = 1 / 2 \<and> ki s = 0 \<and> max_torque s = 10
        \<and> joint_angle e = 0 \<and> joint_velocity e = 0 \<longrightarrow>
      snd (OnUpdate (PositionCommandCallback s (1 / 2)) e) = [SetForce 1, Published (Publish s e)])"
proof (intro conjI impI)
  assume pos: "received_first_command s \<and> position_control s"
  then show "snd (OnUpdate s e) =
        [SetForce (limit (kp s * (angle_reference s - joint_angle e) - kd s * joint_velocity e
                            + ki s * angle_error_integral (fst (OnUpdate s e)))
                     (max_torque s) (- max_torque s)),
         Published (Publish s e)]"
    by (simp add: OnUpdate_position)
  from pos show "angle_error_integral (fst (OnUpdate s e)) =
          limit (angle_error_integral s
                   + (angle_reference s - joint_angle e) * sampling_time (fst (OnUpdate s e)))
            (max_angle_error_integral s) (- max_angle_error_integral s)"
    by (simp add: OnUpdate_position)
next
  let ?s = "PositionCommandCallback s (1 / 2)"
  assume ex: "kp s = 2 \<and> kd s = 1 / 2 \<and> ki s = 0 \<and> max_torque s = 10
        \<and> joint_angle e = 0 \<and> joint_velocity e = 0"
  have flags: "received_first_command ?s" "position_control ?s"
    by (simp_all add: PositionCommandCallback_def)
  from ex have k: "kp s = 2" "kd s = 1 / 2" "ki s = 0" "max_torque s = 10"
    "joint_angle e = 0" "joint_velocity e = 0"
    by simp_all
  have l: "limit 1 10 (- 10) = 1" by (simp add: limit_def)
  show "snd (OnUpdate ?s e) = [SetForce 1, Published (Publish s e)]"
    unfolding OnUpdate_position [OF flags]
    by (simp add: PositionCommandCallback_def Publish_def k l)
qed

theorem position_tick_torque_witness:
  "snd (run (example_servo\<lparr>prev_sim_time := Some 0\<rparr>)
         [PositionCommand (1 / 2), Tick (example_info 0 10000000 0 0 0)]) =
     [SetForce 1, Published (Publish example_servo (example_info 0 10000000 0 0 0))]
   \<and> sampling_time (fst (run (example_servo\<lparr>prev_sim_time := Some 0\<rparr>)
         [PositionCommand (1 / 2), Tick (example_info 0 10000000 0 0 0)])) = 1 / 100
   \<and> angle_error_integral (fst (run (example_servo\<lparr>prev_sim_time := Some 0\<rparr>)
         [PositionCommand (1 / 2), Tick (example_info 0 10000000 0 0 0)])) = 1 / 200"
proof -
  let ?init = "example_servo\<lparr>prev_sim_time := Some 0\<rparr>"
  let ?s = "PositionCommandCallback ?init (1 / 2)"
  let ?e = "example_info 0 10000000 0 0 0"
  have cfg: "kp ?init = 2 \<and> kd ?init = 1 / 2 \<and> ki ?init = 0 \<and> max_torque ?init = 10
        \<and> joint_angle ?e = 0 \<and> joint_velocity ?e = 0"
    by (simp add: example_servo_def example_info_def)
  have flags: "received_first_command ?s \<and> position_control ?s"
    by (simp add: PositionCommandCallback_def)
  have dt: "sampling_time (fst (OnUpdate ?s ?e)) = 1 / 100"
    by (simp add: run_defs)
  have pub: "Publish ?init ?e = Publish example_servo ?e"
    by (simp add: Publish_def)
  have acc: "limit (angle_error_integral ?s + (angle_reference ?s - joint_angle ?e) * (1 / 100))
           (max_angle_error_integral ?s) (- max_angle_error_integral ?s) = 1 / 200"
    by (simp add: run_defs)
  from position_tick_torque [of ?s ?e] position_tick_torque [of ?init ?e] cfg flags dt pub acc
  show ?thesis by (simp add: Let_def)
qed

subsection \<open>The sampling time\<close>

text \<open>
  C4. Every update stores as sampling time the limited value, between \<open>0.001\<close> and \<open>1\<close>,
  of the elapsed time \<open>raw_dt\<close>: the update's time less the previous one's. An elapsed
  time of zero or less gives \<open>0.001\<close>. The previous time becomes the update's time
  whatever the elapsed time was. On the first update the elapsed time is \<open>0\<close> and the
  sampling time \<open>0.001\<close>.
\<close>

theorem sampling_time_derivation:
  "sampling_time (fst (OnUpdate s e)) = limit (raw_dt s e) 1 0.001
   \<and> 0.001 \<le> sampling_time (fst (OnUpdate s e))
   \<and> sampling_time (fst (OnUpdate s e)) \<le> 1
   \<and> (raw_dt s e \<le> 0 \<longrightarrow> sampling_time (fst (OnUpdate s e)) = 0.001)
   \<and> prev_sim_time (fst (OnUpdate s e)) = Some (simTime e)
   \<and> (prev_sim_time s = Some p \<longrightarrow> raw_dt s e = simTime e - p)
   \<and> (prev_sim_time s = None \<longrightarrow>
        raw_dt s e = 0 \<and> sampling_time (fst (OnUpdate s e)) = 0.001)"
proof -
  have t: "sampling_time (fst (OnUpdate s e)) = limit (raw_dt s e) 1 0.001"
    by (simp add: OnUpdate_timing)
  have le: "(0.001 :: real) \<le> 1" by simp
  have b: "0.001 \<le> limit (raw_dt s e) 1 0.001 \<and> limit (raw_dt s e) 1 0.001 \<le> 1"
    using le by (rule limit_bounds)
  have n: "raw_dt s e \<le> 0 \<longrightarrow> limit (raw_dt s e) 1 0.001 = 0.001"
    by (simp add: limit_def)
  have f: "prev_sim_time s = None \<longrightarrow> raw_dt s e = 0"
    by (simp add: raw_dt_def)
  have g: "prev_sim_time s = Some p \<longrightarrow> raw_dt s e = simTime e - p"
    by (simp add: raw_dt_def)
  have z: "limit 0 1 0.001 = 0.001" by (simp add: limit_def)
  from t b n f g z show ?thesis by (simp add: OnUpdate_timing)
qed

theorem sampling_time_derivation_witness:
  "prev_sim_time example_servo = None
   \<and> sampling_time (fst (OnUpdate example_servo (example_info 7 0 0 0 0))) = 0.001
   \<and> prev_sim_time (fst (OnUpdate example_servo (example_info 7 0 0 0 0))) = Some 7
   \<and> prev_sim_time (example_servo\<lparr>prev_sim_time := Some 5\<rparr>) = Some 5
   \<and> raw_dt (example_servo\<lparr>prev_sim_time := Some 5\<rparr>) (example_info 3 0 0 0 0) = - 2
   \<and> sampling_time (fst (OnUpdate (example_servo\<lparr>prev_sim_time := Some 5\<rparr>)
        (example_info 3 0 0 0 0))) = 0.001
   \<and> prev_sim_time (fst (OnUpdate (example_servo\<lparr>prev_sim_time := Some 5\<rparr>)
        (example_info 3 0 0 0 0))) = Some 3"
proof -
  have a: "prev_sim_time example_servo = None" by (simp add: example_servo_def)
  have b: "prev_sim_time (example_servo\<lparr>prev_sim_time := Some 5\<rparr>) = Some 5" by simp
  have c: "simTime (example_info 7 0 0 0 0) = 7" "simTime (example_info 3 0 0 0 0) = 3"
    by (simp_all add: example_info_def)
  from sampling_time_derivation [of example_servo "example_info 7 0 0 0 0"]
    sampling_time_derivation [of "example_servo\<lparr>prev_sim_time := Some 5\<rparr>"
      "example_info 3 0 0 0 0" 5] a b c
  show ?thesis by (simp add: limit_def)
qed

subsection \<open>Before the first command\<close>

lemma Publish_timing:
  "Publish (s\<lparr>sampling_time := dt, prev_sim_time := p\<rparr>) e = Publish s e"
  by (simp add: Publish_def)

lemma run_ticks_uninitialized:
  assumes "received_first_command s = False"
  shows "snd (run s (map Tick es)) = map (\<lambda>e. Published (Publish s e)) es
         \<and> received_first_command (fst (run s (map Tick es))) = False
         \<and> angle_error_integral (fst (run s (map Tick es))) = angle_error_integral s"
  using assms
proof (induction es arbitrary: s)
  case Nil
  then show ?case by simp
next
  case (Cons e es)
  let ?s' = "s\<lparr>sampling_time := limit (raw_dt s e) 1 0.001, prev_sim_time := Some (simTime e)\<rparr>"
  have u: "OnUpdate s e = (?s', [Published (Publish s e)])"
    using Cons.prems by (rule OnUpdate_uninitialized)
  have r: "received_first_command ?s' = False" using Cons.prems by simp
  from Cons.IH [OF r] show ?case by (simp add: u Let_def Publish_timing)
qed

text \<open>
  C5. While no command has been received, a sequence of updates calls nothing but
  \<^verbatim>\<open>publish\<close>, once per update and in order: \<^verbatim>\<open>SetForce\<close> is never called, the
  integral of the position law stays as it was and the flag stays false. The message
  of an update carries the joint's angle, velocity and applied force and the
  simulation time of that update.
\<close>

theorem no_torque_before_first_command:
  assumes "received_first_command s = False"
  shows "snd (run s (map Tick es)) = map (\<lambda>e. Published (Publish s e)) es
         \<and> (\<forall>t. SetForce t \<notin> set (snd (run s (map Tick es))))
         \<and> angle_error_integral (fst (run s (map Tick es))) = angle_error_integral s
         \<and> received_first_command (fst (run s (map Tick es))) = False
         \<and> position (Publish s e) = [joint_angle e]
         \<and> velocity (Publish s e) = [joint_velocity e]
         \<and> effort (Publish s e) = [joint_force e]
         \<and> header_stamp_sec (Publish s e) = now_sec e
         \<and> header_stamp_nsec (Publish s e) = now_nsec e"
proof -
  note r = run_ticks_uninitialized [OF assms, of es]
  from r have "\<forall>t. SetForce t \<notin> set (snd (run s (map Tick es)))" by auto
  with r show ?thesis by (simp add: Publish_def)
qed

theorem no_torque_before_first_command_witness:
  "received_first_command example_servo = False
   \<and> snd (run example_servo
        (map Tick [example_info 0 0 (1 / 4) 3 0, example_info 0 10000000 (1 / 2) 3 0])) =
      [Published \<lparr> header_frame_id = ''arm::base_link'', header_stamp_sec = 0,
           header_stamp_nsec = 0, name = [''servo_joint''], position = [1 / 4],
           velocity = [3], effort = [0] \<rparr>,
       Published \<lparr> header_frame_id = ''arm::base_link'', header_stamp_sec = 0,
           header_stamp_nsec = 10000000, name = [''servo_joint''], position = [1 / 2],
           velocity = [3], effort = [0] \<rparr>]"
proof -
  have a: "received_first_command example_servo = False" by (simp add: example_servo_def)
  have p: "Publish example_servo (example_info 0 0 (1 / 4) 3 0) =
      \<lparr> header_frame_id = ''arm::base_link'', header_stamp_sec = 0,
           header_stamp_nsec = 0, name = [''servo_joint''], position = [1 / 4],
           velocity = [3], effort = [0] \<rparr>"
    by (simp add: Publish_def example_servo_def example_info_def)
  have q: "Publish example_servo (example_info 0 10000000 (1 / 2) 3 0) =
      \<lparr> header_frame_id = ''arm::base_link'', header_stamp_sec = 0,
           header_stamp_nsec = 10000000, name = [''servo_joint''], position = [1 / 2],
           velocity = [3], effort = [0] \<rparr>"
    by (simp add: Publish_def example_servo_def example_info_def)
  from no_torque_before_first_command [OF a,
      of "[example_info 0 0 (1 / 4) 3 0, example_info 0 10000000 (1 / 2) 3 0]"] a
  show ?thesis by (simp only: list.map p q simp_thms)
qed

subsection \<open>The command callbacks and the mode\<close>

lemma mode_of_Uninitialized: "(mode_of s = Uninitialized) = (\<not> received_first_command s)"
  by (simp add: mode_of_def)

lemma run_mode_initialized:
  "mode_of s \<noteq> Uninitialized \<Longrightarrow> mode_of (fst (run s evs)) \<noteq> Uninitialized"
  by (simp add: mode_of_Uninitialized run_received)

lemma OnUpdate_mode: "mode_of (fst (OnUpdate s e)) = mode_of s"
  by (simp add: mode_of_def OnUpdate_flags)

text \<open>
  C6. A position command stores its angle as the angle reference, selects position
  control and sets the first-command flag; a torque command stores its torque as the
  torque reference, selects torque control and sets the flag. Both do so from every
  state, also as the last event of any run. An update leaves the mode as it is, the flag
  stays set through every run, and no run leads from an initialised mode back to
  \<open>Uninitialized\<close>.
\<close>

theorem command_transitions:
  "angle_reference (PositionCommandCallback s a) = a
   \<and> mode_of (PositionCommandCallback s a) = PositionControl
   \<and> received_first_command (PositionCommandCallback s a)
   \<and> torque_reference (TorqueCommandCallback s t) = t
   \<and> mode_of (TorqueCommandCallback s t) = TorqueControl
   \<and> received_first_command (TorqueCommandCallback s t)
   \<and> mode_of (fst (OnUpdate s e)) = mode_of s
   \<and> angle_reference (fst (run s (evs @ [PositionCommand a]))) = a
   \<and> mode_of (fst (run s (evs @ [PositionCommand a]))) = PositionControl
   \<and> torque_reference (fst (run s (evs @ [TorqueCommand t]))) = t
   \<and> mode_of (fst (run s (evs @ [TorqueCommand t]))) = TorqueControl
   \<and> (received_first_command s \<longrightarrow> received_first_command (fst (run s evs)))
   \<and> (mode_of s \<noteq> Uninitialized \<longrightarrow> mode_of (fst (run s evs)) \<noteq> Uninitialized)"
proof -
  have cb: "angle_reference (PositionCommandCallback s' a) = a
      \<and> mode_of (PositionCommandCallback s' a) = PositionControl
      \<and> received_first_command (PositionCommandCallback s' a)
      \<and> torque_reference (TorqueCommandCallback s' t) = t
      \<and> mode_of (TorqueCommandCallback s' t) = TorqueControl
      \<and> received_first_command (TorqueCommandCallback s' t)" for s'
    by (simp add: PositionCommandCallback_def TorqueCommandCallback_def mode_of_def)
  have last_p: "fst (run s (evs @ [PositionCommand a])) =
      PositionCommandCallback (fst (run s evs)) a"
    by (simp add: run_append_fst)
  have last_t: "fst (run s (evs @ [TorqueCommand t])) =
      TorqueCommandCallback (fst (run s evs)) t"
    by (simp add: run_append_fst)
  from cb [of s] cb [of "fst (run s evs)"] show ?thesis
    by (simp add: last_p last_t OnUpdate_mode run_received run_mode_initialized)
qed

theorem command_transitions_witness:
  "received_first_command (PositionCommandCallback example_servo 1)
   \<and> mode_of (PositionCommandCallback example_servo 1) \<noteq> Uninitialized
   \<and> mode_of (fst (run (PositionCommandCallback example_servo 1)
        [Tick (example_info 0 0 0 0 0), TorqueCommand 3, Tick (example_info 1 0 0 0 0)]))
       = TorqueControl
   \<and> received_first_command (fst (run (PositionCommandCallback example_servo 1)
        [Tick (example_info 0 0 0 0 0), TorqueCommand 3, Tick (example_info 1 0 0 0 0)]))"
proof -
  let ?s = "PositionCommandCallback example_servo 1"
  let ?evs = "[Tick (example_info 0 0 0 0 0), TorqueCommand 3, Tick (example_info 1 0 0 0 0)]"
  have a: "received_first_command ?s" by (simp add: PositionCommandCallback_def)
  have b: "mode_of ?s \<noteq> Uninitialized" by (simp add: PositionCommandCallback_def mode_of_def)
  have c: "mode_of (fst (run ?s ?evs)) = TorqueControl"
    by (simp add: run_defs mode_of_def)
  from command_transitions [of ?s 1 3 "example_info 0 0 0 0 0" ?evs] a b c
  show ?thesis by simp
qed

subsection \<open>The torque law\<close>

text \<open>
  C7, as amended. The update after a torque command passes exactly the limited torque
  reference to \<^verbatim>\<open>SetForce\<close>, whatever the gains, the angle reference and the integral
  are. \<^verbatim>\<open>UpdateTorque\<close> leaves the object as it is, and an update in torque mode changes
  only the sampling time and the previous simulation time.
\<close>

theorem torque_tick:
  "snd (OnUpdate (TorqueCommandCallback s t) e) =
     [SetForce (limit t (max_torque s) (- max_torque s)), Published (Publish s e)]
   \<and> fst (UpdateTorque s e) = s
   \<and> (received_first_command s \<and> \<not> position_control s \<longrightarrow>
        OnUpdate s e =
          (s\<lparr>sampling_time := limit (raw_dt s e) 1 0.001, prev_sim_time := Some (simTime e)\<rparr>,
           [SetForce (limit (torque_reference s) (max_torque s) (- max_torque s)),
            Published (Publish s e)]))"
proof -
  let ?s = "TorqueCommandCallback s t"
  have flags: "received_first_command ?s" "\<not> position_control ?s"
    by (simp_all add: TorqueCommandCallback_def)
  have "snd (OnUpdate ?s e) =
     [SetForce (limit t (max_torque s) (- max_torque s)), Published (Publish s e)]"
    unfolding OnUpdate_torque [OF flags]
    by (simp add: TorqueCommandCallback_def Publish_def)
  moreover have "fst (UpdateTorque s e) = s" by (simp add: UpdateTorque_def)
  ultimately show ?thesis by (simp add: OnUpdate_torque)
qed

theorem torque_tick_witness:
  "received_first_command (TorqueCommandCallback (PositionCommandCallback example_servo 1) 50)
   \<and> \<not> position_control (TorqueCommandCallback (PositionCommandCallback example_servo 1) 50)
   \<and> snd (OnUpdate (TorqueCommandCallback (PositionCommandCallback example_servo 1) 50)
        (example_info 2 0 0 0 0)) =
       [SetForce 10, Published (Publish example_servo (example_info 2 0 0 0 0))]
   \<and> angle_reference (fst (OnUpdate
        (TorqueCommandCallback (PositionCommandCallback example_servo 1) 50)
        (example_info 2 0 0 0 0))) = 1"
proof -
  let ?p = "PositionCommandCallback example_servo 1"
  let ?s = "TorqueCommandCallback ?p 50"
  let ?e = "example_info 2 0 0 0 0"
  have a: "received_first_command ?s \<and> \<not> position_control ?s"
    by (simp add: TorqueCommandCallback_def)
  have m: "limit 50 (max_torque ?p) (- max_torque ?p) = 10"
    by (simp add: run_defs)
  have p: "Publish ?p ?e = Publish example_servo ?e"
    by (simp add: Publish_def PositionCommandCallback_def)
  have r: "angle_reference (?s\<lparr>sampling_time := limit (raw_dt ?s ?e) 1 0.001,
              prev_sim_time := Some (simTime ?e)\<rparr>) = 1"
    by (simp add: TorqueCommandCallback_def PositionCommandCallback_def)
  from torque_tick [of ?p 50 ?e] torque_tick [of ?s 0 ?e] a m p r
  show ?thesis by simp
qed

text \<open>
  C7, as stated, fails: an update in torque mode does change the object. The sample
  object sees an update at time \<open>0\<close>, a position command, an update at time \<open>0.01\<close> and
  a torque command; the update at time \<open>0.51\<close> that follows, in torque mode, turns the
  sampling time from \<open>0.01\<close> into \<open>0.5\<close> and the previous time from \<open>0.01\<close> into \<open>0.51\<close>.
\<close>

theorem torque_tick_changes_timing:
  "mode_of (fst (run example_servo
      [Tick (example_info 0 0 0 0 0), PositionCommand 1,
       Tick (example_info 0 10000000 0 0 0), TorqueCommand 50])) = TorqueControl
   \<and> fst (OnUpdate (fst (run example_servo
      [Tick (example_info 0 0 0 0 0), PositionCommand 1,
       Tick (example_info 0 10000000 0 0 0), TorqueCommand 50]))
        (example_info 0 510000000 0 0 0)) \<noteq>
     fst (run example_servo
      [Tick (example_info 0 0 0 0 0), PositionCommand 1,
       Tick (example_info 0 10000000 0 0 0), TorqueCommand 50])
   \<and> sampling_time (fst (run example_servo
      [Tick (example_info 0 0 0 0 0), PositionCommand 1,
       Tick (example_info 0 10000000 0 0 0), TorqueCommand 50])) = 1 / 100
   \<and> sampling_time (fst (OnUpdate (fst (run example_servo
      [Tick (example_info 0 0 0 0 0), PositionCommand 1,
       Tick (example_info 0 10000000 0 0 0), TorqueCommand 50]))
        (example_info 0 510000000 0 0 0))) = 1 / 2
   \<and> prev_sim_time (fst (run example_servo
      [Tick (example_info 0 0 0 0 0), PositionCommand 1,
       Tick (example_info 0 10000000 0 0 0), TorqueCommand 50])) = Some (1 / 100)
   \<and> prev_sim_time (fst (OnUpdate (fst (run example_servo
      [Tick (example_info 0 0 0 0 0), PositionCommand 1,
       Tick (example_info 0 10000000 0 0 0), TorqueCommand 50]))
        (example_info 0 510000000 0 0 0))) = Some (51 / 100)"
proof -
  let ?s = "fst (run example_servo
      [Tick (example_info 0 0 0 0 0), PositionCommand 1,
       Tick (example_info 0 10000000 0 0 0), TorqueCommand 50])"
  let ?e = "example_info 0 510000000 0 0 0"
  have m: "mode_of ?s = TorqueControl"
    by (simp add: run_defs mode_of_def)
  have a: "sampling_time ?s = 1 / 100" "prev_sim_time ?s = Some (1 / 100)"
    by (simp_all add: run_defs)
  have b: "sampling_time (fst (OnUpdate ?s ?e)) = 1 / 2"
    "prev_sim_time (fst (OnUpdate ?s ?e)) = Some (51 / 100)"
    by (simp_all add: run_defs)
  from a(1) b(1) have "fst (OnUpdate ?s ?e) \<noteq> ?s" by auto
  with m a b show ?thesis by simp
qed

subsection \<open>The integral across mode switches\<close>

lemma step_command_integral:
  "(\<forall>e. ev \<noteq> Tick e) \<Longrightarrow> angle_error_integral (fst (step s ev)) = angle_error_integral s"
  by (cases ev) (simp_all add: PositionCommandCallback_def TorqueCommandCallback_def)

lemma run_commands_integral:
  "(\<forall>e. Tick e \<notin> set evs) \<Longrightarrow>
     angle_error_integral (fst (run s evs)) = angle_error_integral s"
proof (induction evs arbitrary: s)
  case Nil
  then show ?case by simp
next
  case (Cons ev evs)
  from Cons.prems have h: "\<forall>e. ev \<noteq> Tick e" and t: "\<forall>e. Tick e \<notin> set evs" by auto
  from Cons.IH [OF t, of "fst (step s ev)"] step_command_integral [OF h, of s]
  show ?case by (simp add: Let_def)
qed

text \<open>
  C8. Neither callback changes the integral, so it is the same after any run of commands
  only; an update that is not in position mode leaves it as it is; an update in
  position mode replaces it by the limited sum of its old value and the error times
  the sampling time.
\<close>

theorem integral_carries_over:
  "angle_error_integral (PositionCommandCallback s a) = angle_error_integral s
   \<and> angle_error_integral (TorqueCommandCallback s t) = angle_error_integral s
   \<and> ((\<forall>x. Tick x \<notin> set evs) \<longrightarrow>
        angle_error_integral (fst (run s evs)) = angle_error_integral s)
   \<and> (\<not> (received_first_command s \<and> position_control s) \<longrightarrow>
        angle_error_integral (fst (OnUpdate s e)) = angle_error_integral s)
   \<and> (received_first_command s \<and> position_control s \<longrightarrow>
        angle_error_integral (fst (OnUpdate s e)) =
          limit (angle_error_integral s
                   + (angle_reference s - joint_angle e) * sampling_time (fst (OnUpdate s e)))
            (max_angle_error_integral s) (- max_angle_error_integral s))"
proof (intro conjI impI)
  show "angle_error_integral (PositionCommandCallback s a) = angle_error_integral s"
    by (simp add: PositionCommandCallback_def)
  show "angle_error_integral (TorqueCommandCallback s t) = angle_error_integral s"
    by (simp add: TorqueCommandCallback_def)
next
  assume "\<forall>x. Tick x \<notin> set evs"
  then show "angle_error_integral (fst (run s evs)) = angle_error_integral s"
    by (rule run_commands_integral)
next
  assume n: "\<not> (received_first_command s \<and> position_control s)"
  show "angle_error_integral (fst (OnUpdate s e)) = angle_error_integral s"
  proof (cases rule: OnUpdate_cases [of s])
    case uninitialized
    then show ?thesis by (simp add: OnUpdate_uninitialized)
  next
    case position
    with n show ?thesis by simp
  next
    case torque
    then show ?thesis by (simp add: OnUpdate_torque)
  qed
next
  assume "received_first_command s \<and> position_control s"
  then show "angle_error_integral (fst (OnUpdate s e)) =
          limit (angle_error_integral s
                   + (angle_reference s - joint_angle e) * sampling_time (fst (OnUpdate s e)))
            (max_angle_error_integral s) (- max_angle_error_integral s)"
    by (simp add: OnUpdate_position)
qed

theorem integral_carries_over_witness:
  "angle_error_integral (fst (run example_servo
       [PositionCommand 1000, Tick (example_info 0 0 0 0 0)])) = 1
   \<and> (\<forall>x. Tick x \<notin> set [TorqueCommand 3, PositionCommand 0, TorqueCommand 4])
   \<and> angle_error_integral (fst (run
       (fst (run example_servo [PositionCommand 1000, Tick (example_info 0 0 0 0 0)]))
       [TorqueCommand 3, PositionCommand 0, TorqueCommand 4])) = 1
   \<and> \<not> (received_first_command (TorqueCommandCallback
            (fst (run example_servo [PositionCommand 1000, Tick (example_info 0 0 0 0 0)])) 3)
        \<and> position_control (TorqueCommandCallback
            (fst (run example_servo [PositionCommand 1000, Tick (example_info 0 0 0 0 0)])) 3))
   \<and> angle_error_integral (fst (OnUpdate (TorqueCommandCallback
       (fst (run example_servo [PositionCommand 1000, Tick (example_info 0 0 0 0 0)])) 3)
       (example_info 1 0 0 0 0))) = 1
   \<and> received_first_command (PositionCommandCallback example_servo (1 / 2))
   \<and> position_control (PositionCommandCallback example_servo (1 / 2))
   \<and> angle_error_integral (fst (OnUpdate (PositionCommandCallback example_servo (1 / 2))
       (example_info 0 0 0 0 0))) = 1 / 2000"
proof -
  let ?s = "fst (run example_servo [PositionCommand 1000, Tick (example_info 0 0 0 0 0)])"
  let ?evs = "[TorqueCommand 3, PositionCommand 0, TorqueCommand 4]"
  let ?p = "PositionCommandCallback example_servo (1 / 2)"
  have i: "angle_error_integral ?s = 1" by (simp add: run_defs)
  have n: "\<forall>x. Tick x \<notin> set ?evs" by simp
  have t: "\<not> (received_first_command (TorqueCommandCallback ?s 3)
             \<and> position_control (TorqueCommandCallback ?s 3))"
    by (simp add: TorqueCommandCallback_def)
  have k: "angle_error_integral (TorqueCommandCallback ?s 3) = 1"
    using i by (simp add: TorqueCommandCallback_def)
  have f: "received_first_command ?p \<and> position_control ?p"
    by (simp add: PositionCommandCallback_def)
  have v: "angle_error_integral (fst (OnUpdate ?p (example_info 0 0 0 0 0))) = 1 / 2000"
    by (simp add: run_defs)
  from integral_carries_over [of ?s 0 0 ?evs "example_info 1 0 0 0 0"]
    integral_carries_over [of "TorqueCommandCallback ?s 3" 0 0 "[]" "example_info 1 0 0 0 0"]
    integral_carries_over [of ?p 0 0 "[]" "example_info 0 0 0 0 0"]
    i n t k f v
  show ?thesis by simp
qed

subsection \<open>The reference a command does not target\<close>

text \<open>
  C10. A position command leaves the torque reference as it is and a torque command
  leaves the angle reference as it is, so each survives a command of the other kind.
  After a torque command \<open>t\<close>, a position command and a torque command \<open>t'\<close>, the next
  update passes the limited \<open>t'\<close> to \<^verbatim>\<open>SetForce\<close>, whatever \<open>t\<close> and the angle were.
\<close>

theorem other_reference_preserved:
  "torque_reference (PositionCommandCallback s a) = torque_reference s
   \<and> angle_reference (TorqueCommandCallback s t) = angle_reference s
   \<and> torque_reference (fst (run s [TorqueCommand t, PositionCommand a])) = t
   \<and> angle_reference (fst (run s [PositionCommand a, TorqueCommand t])) = a
   \<and> snd (run s [TorqueCommand t, PositionCommand a, TorqueCommand t', Tick e]) =
       [SetForce (limit t' (max_torque s) (- max_torque s)), Published (Publish s e)]"
proof -
  let ?s = "TorqueCommandCallback (PositionCommandCallback (TorqueCommandCallback s t) a) t'"
  have flags: "received_first_command ?s" "\<not> position_control ?s"
    by (simp_all add: TorqueCommandCallback_def)
  have "snd (OnUpdate ?s e) =
      [SetForce (limit t' (max_torque s) (- max_torque s)), Published (Publish s e)]"
    unfolding OnUpdate_torque [OF flags]
    by (simp add: TorqueCommandCallback_def PositionCommandCallback_def Publish_def)
  then have "snd (run s [TorqueCommand t, PositionCommand a, TorqueCommand t', Tick e]) =
       [SetForce (limit t' (max_torque s) (- max_torque s)), Published (Publish s e)]"
    by (simp add: Let_def)
  then show ?thesis
    by (simp add: Let_def TorqueCommandCallback_def PositionCommandCallback_def)
qed

subsection \<open>Configuration errors\<close>

lemma Load_thrown:
  assumes "(case jointName cfg of Some v \<Rightarrow> v | None \<Rightarrow> joint_name s) \<notin> set joints"
  shows "Load s joints cfg =
    ((case robotNamespace cfg of Some v \<Rightarrow> [NewNodeHandle v]
        | None \<Rightarrow> [gzerr ''robotNamespace'', NewNodeHandle []])
      @ (case jointName cfg of Some v \<Rightarrow> [] | None \<Rightarrow> [gzerr ''jointName'']),
     Inl (JointNotFound (case jointName cfg of Some v \<Rightarrow> v | None \<Rightarrow> joint_name s)))"
  using assms by (simp add: Load_def Let_def split: option.splits)

lemma Load_started:
  assumes "(case jointName cfg of Some v \<Rightarrow> v | None \<Rightarrow> joint_name s) \<in> set joints"
  shows "\<not> isl (snd (Load s joints cfg))"
    and "ConnectWorldUpdateBegin \<in> set (fst (Load s joints cfg))"
    and "(gzerr ''motorModel'' \<in> set (fst (Load s joints cfg))) = (motorModel cfg = None)"
    and "(gzerr ''maxTorque'' \<in> set (fst (Load s joints cfg))) = (maxTorque cfg = None)"
    and "(gzerr ''noLoadSpeed'' \<in> set (fst (Load s joints cfg))) = (noLoadSpeed cfg = None)"
    and "max_torque (projr (snd (Load s joints cfg))) =
           (case maxTorque cfg of Some v \<Rightarrow> v | None \<Rightarrow> max_torque s)"
    and "no_load_speed (projr (snd (Load s joints cfg))) =
           (case noLoadSpeed cfg of Some v \<Rightarrow> v | None \<Rightarrow> no_load_speed s)"
    and "min_angle (projr (snd (Load s joints cfg))) = getSdfParam (minAngle cfg) (min_angle s)"
    and "max_angle (projr (snd (Load s joints cfg))) = getSdfParam (maxAngle cfg) (max_angle s)"
    and "SetLowerLimit (getSdfParam (minAngle cfg) (min_angle s)) \<in> set (fst (Load s joints cfg))"
    and "SetUpperLimit (getSdfParam (maxAngle cfg) (max_angle s)) \<in> set (fst (Load s joints cfg))"
  using assms by (simp_all add: Load_def Let_def split: option.splits)


lemma Load_namespace_jointName:
  "(gzerr ''robotNamespace'' \<in> set (fst (Load s joints cfg))) = (robotNamespace cfg = None)"
  "(gzerr ''jointName'' \<in> set (fst (Load s joints cfg))) = (jointName cfg = None)"
  by (simp_all add: Load_def Let_def split: option.splits)

text \<open>
  C9, as amended. \<^verbatim>\<open>Load\<close> throws exactly when the model has no joint of the
  configured name (the member's previous value when \<^verbatim>\<open>jointName\<close> is absent); then the
  joint's limits are not set, the update event is not connected and no topic is
  subscribed or advertised. Otherwise \<^verbatim>\<open>Load\<close> completes and connects the update event:
  an absent \<^verbatim>\<open>robotNamespace\<close>, \<^verbatim>\<open>jointName\<close>, \<^verbatim>\<open>motorModel\<close>, \<^verbatim>\<open>maxTorque\<close> or \<^verbatim>\<open>noLoadSpeed\<close>
  is written to the error stream and the member keeps its previous value, and the
  angle limits are passed to the joint as configured, in whatever order they are.
\<close>

theorem Load_outcome:
  "((case jointName cfg of Some v \<Rightarrow> v | None \<Rightarrow> joint_name s) \<notin> set joints \<longrightarrow>
      snd (Load s joints cfg) =
        Inl (JointNotFound (case jointName cfg of Some v \<Rightarrow> v | None \<Rightarrow> joint_name s))
      \<and> ConnectWorldUpdateBegin \<notin> set (fst (Load s joints cfg))
      \<and> (\<forall>x. subscribe x \<notin> set (fst (Load s joints cfg)))
      \<and> (\<forall>x. advertise x \<notin> set (fst (Load s joints cfg)))
      \<and> (\<forall>x. SetLowerLimit x \<notin> set (fst (Load s joints cfg)))
      \<and> (\<forall>x. SetUpperLimit x \<notin> set (fst (Load s joints cfg))))
   \<and> ((case jointName cfg of Some v \<Rightarrow> v | None \<Rightarrow> joint_name s) \<in> set joints \<longrightarrow>
      \<not> isl (snd (Load s joints cfg))
      \<and> ConnectWorldUpdateBegin \<in> set (fst (Load s joints cfg))
      \<and> (gzerr ''motorModel'' \<in> set (fst (Load s joints cfg))) = (motorModel cfg = None)
      \<and> (gzerr ''maxTorque'' \<in> set (fst (Load s joints cfg))) = (maxTorque cfg = None)
      \<and> (gzerr ''noLoadSpeed'' \<in> set (fst (Load s joints cfg))) = (noLoadSpeed cfg = None)
      \<and> max_torque (projr (snd (Load s joints cfg))) =
          (case maxTorque cfg of Some v \<Rightarrow> v | None \<Rightarrow> max_torque s)
      \<and> no_load_speed (projr (snd (Load s joints cfg))) =
          (case noLoadSpeed cfg of Some v \<Rightarrow> v | None \<Rightarrow> no_load_speed s)
      \<and> min_angle (projr (snd (Load s joints cfg))) = getSdfParam (minAngle cfg) (min_angle s)
      \<and> max_angle (projr (snd (Load s joints cfg))) = getSdfParam (maxAngle cfg) (max_angle s)
      \<and> SetLowerLimit (getSdfParam (minAngle cfg) (min_angle s)) \<in> set (fst (Load s joints cfg))
      \<and> SetUpperLimit (getSdfParam (maxAngle cfg) (max_angle s)) \<in> set (fst (Load s joints cfg)))
   \<and> (gzerr ''robotNamespace'' \<in> set (fst (Load s joints cfg))) = (robotNamespace cfg = None)
   \<and> (gzerr ''jointName'' \<in> set (fst (Load s joints cfg))) = (jointName cfg = None)"
proof (intro conjI impI)
  assume n: "(case jointName cfg of Some v \<Rightarrow> v | None \<Rightarrow> joint_name s) \<notin> set joints"
  note t = Load_thrown [OF n]
  show "snd (Load s joints cfg) =
        Inl (JointNotFound (case jointName cfg of Some v \<Rightarrow> v | None \<Rightarrow> joint_name s))"
    by (simp add: t)
  show "ConnectWorldUpdateBegin \<notin> set (fst (Load s joints cfg))"
    by (simp add: t split: option.splits)
  show "\<forall>x. subscribe x \<notin> set (fst (Load s joints cfg))"
    by (simp add: t split: option.splits)
  show "\<forall>x. advertise x \<notin> set (fst (Load s joints cfg))"
    by (simp add: t split: option.splits)
  show "\<forall>x. SetLowerLimit x \<notin> set (fst (Load s joints cfg))"
    by (simp add: t split: option.splits)
  show "\<forall>x. SetUpperLimit x \<notin> set (fst (Load s joints cfg))"
    by (simp add: t split: option.splits)
next
  assume y: "(case jointName cfg of Some v \<Rightarrow> v | None \<Rightarrow> joint_name s) \<in> set joints"
  note st = Load_started [OF y]
  show "\<not> isl (snd (Load s joints cfg))" by (rule st(1))
  show "ConnectWorldUpdateBegin \<in> set (fst (Load s joints cfg))" by (rule st(2))
  show "(gzerr ''motorModel'' \<in> set (fst (Load s joints cfg))) = (motorModel cfg = None)"
    by (rule st(3))
  show "(gzerr ''maxTorque'' \<in> set (fst (Load s joints cfg))) = (maxTorque cfg = None)"
    by (rule st(4))
  show "(gzerr ''noLoadSpeed'' \<in> set (fst (Load s joints cfg))) = (noLoadSpeed cfg = None)"
    by (rule st(5))
  show "max_torque (projr (snd (Load s joints cfg))) =
          (case maxTorque cfg of Some v \<Rightarrow> v | None \<Rightarrow> max_torque s)"
    by (rule st(6))
  show "no_load_speed (projr (snd (Load s joints cfg))) =
          (case noLoadSpeed cfg of Some v \<Rightarrow> v | None \<Rightarrow> no_load_speed s)"
    by (rule st(7))
  show "min_angle (projr (snd (Load s joints cfg))) = getSdfParam (minAngle cfg) (min_angle s)"
    by (rule st(8))
  show "max_angle (projr (snd (Load s joints cfg))) = getSdfParam (maxAngle cfg) (max_angle s)"
    by (rule st(9))
  show "SetLowerLimit (getSdfParam (minAngle cfg) (min_angle s)) \<in> set (fst (Load s joints cfg))"
    by (rule st(10))
  show "SetUpperLimit (getSdfParam (maxAngle cfg) (max_angle s)) \<in> set (fst (Load s joints cfg))"
    by (rule st(11))
next
  show "(gzerr ''robotNamespace'' \<in> set (fst (Load s joints cfg))) = (robotNamespace cfg = None)"
    by (rule Load_namespace_jointName(1))
  show "(gzerr ''jointName'' \<in> set (fst (Load s joints cfg))) = (jointName cfg = None)"
    by (rule Load_namespace_jointName(2))
qed

theorem Load_outcome_witness:
  "''servo_joint'' \<notin> set [''wrist_joint'']
   \<and> Load example_servo [''wrist_joint''] example_sdf =
       ([NewNodeHandle ''arm''], Inl (JointNotFound ''servo_joint''))
   \<and> ''servo_joint'' \<in> set [''wrist_joint'', ''servo_joint'']
   \<and> \<not> isl (snd (Load example_servo [''wrist_joint'', ''servo_joint''] example_sdf))
   \<and> gzerr ''maxTorque'' \<in> set (fst (Load example_servo [''wrist_joint'', ''servo_joint''] example_sdf))
   \<and> max_torque (projr (snd (Load example_servo [''wrist_joint'', ''servo_joint''] example_sdf))) = 10"
proof -
  have j: "(case jointName example_sdf of Some v \<Rightarrow> v | None \<Rightarrow> joint_name example_servo)
      = ''servo_joint''"
    by (simp add: example_sdf_def)
  have a: "''servo_joint'' \<notin> set [''wrist_joint'']" by simp
  have b: "''servo_joint'' \<in> set [''wrist_joint'', ''servo_joint'']" by simp
  have c: "Load example_servo [''wrist_joint''] example_sdf =
       ([NewNodeHandle ''arm''], Inl (JointNotFound ''servo_joint''))"
    by (simp add: Load_def Let_def example_sdf_def example_servo_def)
  have m: "maxTorque example_sdf = None" "max_torque example_servo = 10"
    by (simp_all add: example_sdf_def example_servo_def)
  from Load_outcome [where cfg = example_sdf and s = example_servo and joints = "[''wrist_joint'']"]
    Load_outcome [where cfg = example_sdf and s = example_servo
      and joints = "[''wrist_joint'', ''servo_joint'']"]
    j a b c m
  show ?thesis by simp
qed

text \<open>
  C9, as stated, fails: with \<^verbatim>\<open>motorModel\<close>, \<^verbatim>\<open>maxTorque\<close> and \<^verbatim>\<open>noLoadSpeed\<close> absent and
  a lower angle limit of \<open>1\<close> above the upper limit of \<open>0\<close>, \<^verbatim>\<open>Load\<close> writes three lines
  to the error stream, passes both limits to the joint, connects the update event and
  subscribes to both command topics.
\<close>

theorem Load_starts_without_required_fields:
  "motorModel example_sdf = None \<and> maxTorque example_sdf = None
   \<and> noLoadSpeed example_sdf = None
   \<and> minAngle example_sdf = Some 1 \<and> maxAngle example_sdf = Some 0
   \<and> Load example_servo [''servo_joint''] example_sdf =
       ([NewNodeHandle ''arm'', gzerr ''motorModel'', gzerr ''maxTorque'',
         gzerr ''noLoadSpeed'', SetLowerLimit 1, SetUpperLimit 0, ConnectWorldUpdateBegin,
         subscribe ''command_position'', subscribe ''command_torque'',
         advertise ''joint_state''],
        Inr (example_servo\<lparr>max_angle := 0, min_angle := 1\<rparr>))"
  by (simp add: Load_def Let_def getSdfParam_def example_sdf_def example_servo_def)

end
